theory Spec2Isabelle
  imports Complex_Main
begin

section \<open>The driver store of src/stores/driverStore.ts\<close>

subsection \<open>Plain objects used as dictionaries\<close>

text \<open>
  A JavaScript object used as \<open>Record<string, V>\<close> is kept as the list of its own
  properties, one pair per key. \<open>obj_set k v o\<close> is \<open>{...o, [k]: v}\<close>: an existing key
  keeps its place and takes the new value, a new key goes last. \<open>obj_get o k\<close> is \<open>o[k]\<close>
  (\<open>None\<close> for \<open>undefined\<close>) and \<open>obj_values\<close> is \<open>Object.values\<close>. The engine's
  special enumeration order for integer-like keys is not modelled; nothing below depends on
  the order of the values.
\<close>

type_synonym 'v js_object = "(string \<times> 'v) list"

fun obj_set :: "string \<Rightarrow> 'v \<Rightarrow> 'v js_object \<Rightarrow> 'v js_object" where
  "obj_set k v [] = [(k, v)]"
| "obj_set k v (p # ps) = (if fst p = k then (k, v) # ps else p # obj_set k v ps)"

definition obj_get :: "'v js_object \<Rightarrow> string \<Rightarrow> 'v option" where
  "obj_get ob k = map_of ob k"

definition obj_values :: "'v js_object \<Rightarrow> 'v list" where
  "obj_values ob = map snd ob"

subsection \<open>Records\<close>

text \<open>
  The type declarations of \<open>../types/vendor\<close> are not part of the sources at hand; the
  fields are those the store and its seed record use. The string-literal unions
  (\<open>status\<close>, \<open>onboardingStatus\<close>, the document status) are strings, as they are at run
  time.

  A stored document is the run-time object: \<open>verifyDocument\<close> can create one that lacks
  the properties its declared type requires, so every property is optional here.
\<close>

record driverDocument =
  doc_id :: "string option"
  doc_type :: "string option"
  doc_number :: "string option"
  doc_expiryDate :: "string option"
  doc_issuedDate :: "string option"
  doc_status :: "string option"
  doc_fileUrl :: "string option"
  doc_comments :: "string option"

text \<open>\<open>Omit<DriverDocument, 'id'>\<close>, the argument of \<open>uploadDocument\<close>.\<close>

record documentDraft =
  draft_type :: string
  draft_number :: string
  draft_expiryDate :: string
  draft_issuedDate :: string
  draft_status :: string
  draft_fileUrl :: string
  draft_comments :: "string option"

record driverMetadata =
  totalTrips :: int
  rating :: real
  lastActive :: "string option"
  completedVerification :: bool

text \<open>
  \<open>driverData\<close> is \<open>Omit<Driver, 'id' | 'createdAt' | 'updatedAt' | 'status' |
  'onboardingStatus'>\<close>, the argument of \<open>addDriver\<close>; \<open>driver\<close> adds the omitted
  fields. An absent \<open>vehicleId\<close> and one set to \<open>undefined\<close> are both \<open>None\<close>.
\<close>

record driverData =
  name :: string
  phone :: string
  email :: string
  licenseNumber :: string
  vendorId :: string
  vehicleId :: "string option"
  documents :: "driverDocument js_object"
  metadata :: driverMetadata

record driver = driverData +
  driver_id :: string
  status :: string
  onboardingStatus :: string
  createdAt :: string
  updatedAt :: string

text \<open>
  \<open>Partial<Driver>\<close>, the second argument of \<open>updateDriver\<close>: \<open>None\<close> is a key that
  is not given. For \<open>vehicleId\<close>, \<open>Some None\<close> is the key given as \<open>undefined\<close>.
\<close>

record driverUpdates =
  upd_id :: "string option"
  upd_name :: "string option"
  upd_phone :: "string option"
  upd_email :: "string option"
  upd_licenseNumber :: "string option"
  upd_vendorId :: "string option"
  upd_status :: "string option"
  upd_onboardingStatus :: "string option"
  upd_vehicleId :: "string option option"
  upd_documents :: "driverDocument js_object option"
  upd_createdAt :: "string option"
  upd_updatedAt :: "string option"
  upd_metadata :: "driverMetadata option"

record store =
  drivers :: "driver list"
  loading :: bool
  error :: "string option"

subsection \<open>Environment and outcomes\<close>

text \<open>
  \<open>clock k\<close> is the value of the \<open>k\<close>-th evaluation of \<open>new Date().toISOString()\<close>
  during one operation (counted from 0). The value of
  \<open>Math.random().toString(36).substr(2, 9)\<close> is an argument \<open>rnd\<close> of the operations
  that evaluate it.

  An operation returns how its promise settles (\<open>Inl\<close>: rejected with the error thrown,
  \<open>Inr\<close>: resolved) together with the snapshots it publishes, one per call of \<open>set\<close>, in
  order. \<open>final s out\<close> is the store when the operation that started in \<open>s\<close> is over.
\<close>

datatype js_error = Error string

type_synonym clock = "nat \<Rightarrow> string"

type_synonym 'a outcome = "(js_error + 'a) \<times> store list"

definition final :: "store \<Rightarrow> 'a outcome \<Rightarrow> store" where
  "final s out = last (s # snd out)"

text \<open>
  The \<open>catch\<close> block shared by the three guarded operations:
  \<open>set({ error: msg, loading: false }); throw error\<close>, entered when the \<open>try\<close> block,
  started in \<open>s1\<close>, throws.
\<close>

definition catch_block :: "string \<Rightarrow> store \<Rightarrow> 'a outcome \<Rightarrow> 'a outcome" where
  "catch_block msg s1 out =
     (case out of
        (Inr v, tr) \<Rightarrow> (Inr v, tr)
      | (Inl e, tr) \<Rightarrow> (Inl e, tr @ [(last (s1 # tr))\<lparr>error := Some msg, loading := False\<rparr>]))"

subsection \<open>Seed data\<close>

definition initialDrivers :: "driver list" where
  "initialDrivers =
     [\<lparr>name = ''John Doe'', phone = ''+1234567890'', email = ''john@example.com'',
       licenseNumber = ''DL123456'', vendorId = ''2'', vehicleId = None,
       documents =
         [(''license'',
           \<lparr>doc_id = Some ''doc1'', doc_type = Some ''license'', doc_number = Some ''DL123456'',
            doc_expiryDate = Some ''2025-12-31'', doc_issuedDate = Some ''2020-01-01'',
            doc_status = Some ''verified'', doc_fileUrl = Some ''https://example.com/license.pdf'',
            doc_comments = None\<rparr>),
          (''permit'',
           \<lparr>doc_id = Some ''doc2'', doc_type = Some ''permit'', doc_number = Some ''P123'',
            doc_expiryDate = Some ''2024-12-31'', doc_issuedDate = Some ''2023-01-01'',
            doc_status = Some ''verified'', doc_fileUrl = Some ''https://example.com/permit.pdf'',
            doc_comments = None\<rparr>)],
       metadata = \<lparr>totalTrips = 150, rating = 48 / 10,
                   lastActive = Some ''2024-03-15T12:00:00Z'', completedVerification = True\<rparr>,
       driver_id = ''1'', status = ''active'', onboardingStatus = ''completed'',
       createdAt = ''2024-03-15T00:00:00Z'', updatedAt = ''2024-03-15T00:00:00Z''\<rparr>]"

definition initialStore :: store where
  "initialStore = \<lparr>drivers = initialDrivers, loading = False, error = None\<rparr>"

subsection \<open>addDriver\<close>

text \<open>
  The object literal spreads \<open>driverData\<close> first; \<open>documents\<close> and \<open>metadata\<close>, which
  the argument type still carries, are overwritten by the later properties. The clock is
  read twice, for \<open>createdAt\<close> and then for \<open>updatedAt\<close>.
\<close>

definition addDriver_try :: "driverData \<Rightarrow> string \<Rightarrow> clock \<Rightarrow> store \<Rightarrow> driver outcome" where
  "addDriver_try driverData rnd clk s =
     (let newDriver =
            \<lparr>name = name driverData, phone = phone driverData, email = email driverData,
             licenseNumber = licenseNumber driverData, vendorId = vendorId driverData,
             vehicleId = vehicleId driverData,
             documents = [],
             metadata = \<lparr>totalTrips = 0, rating = 0, lastActive = None,
                         completedVerification = False\<rparr>,
             driver_id = rnd, status = ''inactive'', onboardingStatus = ''pending'',
             createdAt = clk 0, updatedAt = clk 1\<rparr>
      in (Inr newDriver, [s\<lparr>drivers := drivers s @ [newDriver], loading := False\<rparr>]))"

definition addDriver :: "driverData \<Rightarrow> string \<Rightarrow> clock \<Rightarrow> store \<Rightarrow> driver outcome" where
  "addDriver driverData rnd clk s =
     (let s1 = s\<lparr>loading := True\<rparr>;
          out = catch_block ''Failed to add driver'' s1 (addDriver_try driverData rnd clk s1)
      in (fst out, s1 # snd out))"

subsection \<open>updateDriver\<close>

text \<open>\<open>{ ...driver, ...updates }\<close>: every key that \<open>updates\<close> gives replaces the driver's.\<close>

definition merge_updates :: "driver \<Rightarrow> driverUpdates \<Rightarrow> driver" where
  "merge_updates d u =
     \<lparr>name = (case upd_name u of None \<Rightarrow> name d | Some v \<Rightarrow> v),
      phone = (case upd_phone u of None \<Rightarrow> phone d | Some v \<Rightarrow> v),
      email = (case upd_email u of None \<Rightarrow> email d | Some v \<Rightarrow> v),
      licenseNumber = (case upd_licenseNumber u of None \<Rightarrow> licenseNumber d | Some v \<Rightarrow> v),
      vendorId = (case upd_vendorId u of None \<Rightarrow> vendorId d | Some v \<Rightarrow> v),
      vehicleId = (case upd_vehicleId u of None \<Rightarrow> vehicleId d | Some v \<Rightarrow> v),
      documents = (case upd_documents u of None \<Rightarrow> documents d | Some v \<Rightarrow> v),
      metadata = (case upd_metadata u of None \<Rightarrow> metadata d | Some v \<Rightarrow> v),
      driver_id = (case upd_id u of None \<Rightarrow> driver_id d | Some v \<Rightarrow> v),
      status = (case upd_status u of None \<Rightarrow> status d | Some v \<Rightarrow> v),
      onboardingStatus =
        (case upd_onboardingStatus u of None \<Rightarrow> onboardingStatus d | Some v \<Rightarrow> v),
      createdAt = (case upd_createdAt u of None \<Rightarrow> createdAt d | Some v \<Rightarrow> v),
      updatedAt = (case upd_updatedAt u of None \<Rightarrow> updatedAt d | Some v \<Rightarrow> v)\<rparr>"

text \<open>
  The \<open>map\<close> over the drivers, left to right. \<open>k\<close> counts the clock readings made so
  far and \<open>found\<close> is the variable \<open>updatedDriver\<close> of the enclosing function, assigned
  at every match.
\<close>

fun updateDriver_map ::
  "string \<Rightarrow> driverUpdates \<Rightarrow> clock \<Rightarrow> nat \<Rightarrow> driver option \<Rightarrow> driver list
     \<Rightarrow> driver list \<times> driver option" where
  "updateDriver_map i u clk k found [] = ([], found)"
| "updateDriver_map i u clk k found (d # ds) =
     (if driver_id d = i then
        (let updatedDriver = (merge_updates d u)\<lparr>updatedAt := clk k\<rparr>;
             rest = updateDriver_map i u clk (Suc k) (Some updatedDriver) ds
         in (updatedDriver # fst rest, snd rest))
      else
        (let rest = updateDriver_map i u clk k found ds
         in (d # fst rest, snd rest)))"

definition updateDriver_try :: "string \<Rightarrow> driverUpdates \<Rightarrow> clock \<Rightarrow> store \<Rightarrow> driver outcome" where
  "updateDriver_try i u clk s =
     (let r = updateDriver_map i u clk 0 None (drivers s);
          s2 = s\<lparr>drivers := fst r, loading := False\<rparr>
      in case snd r of
           None \<Rightarrow> (Inl (Error ''Driver not found''), [s2])
         | Some updatedDriver \<Rightarrow> (Inr updatedDriver, [s2]))"

definition updateDriver :: "string \<Rightarrow> driverUpdates \<Rightarrow> clock \<Rightarrow> store \<Rightarrow> driver outcome" where
  "updateDriver i u clk s =
     (let s1 = s\<lparr>loading := True\<rparr>;
          out = catch_block ''Failed to update driver'' s1 (updateDriver_try i u clk s1)
      in (fst out, s1 # snd out))"

subsection \<open>uploadDocument\<close>

text \<open>\<open>{ ...document, id: documentId, status: 'pending' }\<close>.\<close>

definition new_document :: "documentDraft \<Rightarrow> string \<Rightarrow> driverDocument" where
  "new_document document documentId =
     \<lparr>doc_id = Some documentId, doc_type = Some (draft_type document),
      doc_number = Some (draft_number document),
      doc_expiryDate = Some (draft_expiryDate document),
      doc_issuedDate = Some (draft_issuedDate document),
      doc_status = Some ''pending'',
      doc_fileUrl = Some (draft_fileUrl document),
      doc_comments = draft_comments document\<rparr>"

fun uploadDocument_map ::
  "string \<Rightarrow> documentDraft \<Rightarrow> string \<Rightarrow> clock \<Rightarrow> nat \<Rightarrow> driver list \<Rightarrow> driver list" where
  "uploadDocument_map driverId document documentId clk k [] = []"
| "uploadDocument_map driverId document documentId clk k (d # ds) =
     (if driver_id d = driverId then
        d\<lparr>documents :=
             obj_set (draft_type document) (new_document document documentId) (documents d),
          updatedAt := clk k\<rparr>
          # uploadDocument_map driverId document documentId clk (Suc k) ds
      else d # uploadDocument_map driverId document documentId clk k ds)"

definition uploadDocument_try ::
  "string \<Rightarrow> documentDraft \<Rightarrow> string \<Rightarrow> clock \<Rightarrow> store \<Rightarrow> unit outcome" where
  "uploadDocument_try driverId document rnd clk s =
     (let documentId = rnd
      in (Inr (),
          [s\<lparr>drivers := uploadDocument_map driverId document documentId clk 0 (drivers s),
             loading := False\<rparr>]))"

definition uploadDocument ::
  "string \<Rightarrow> documentDraft \<Rightarrow> string \<Rightarrow> clock \<Rightarrow> store \<Rightarrow> unit outcome" where
  "uploadDocument driverId document rnd clk s =
     (let s1 = s\<lparr>loading := True\<rparr>;
          out = catch_block ''Failed to upload document'' s1
                  (uploadDocument_try driverId document rnd clk s1)
      in (fst out, s1 # snd out))"

subsection \<open>The unguarded operations\<close>

definition deleteDriver :: "string \<Rightarrow> store \<Rightarrow> unit outcome" where
  "deleteDriver i s = (Inr (), [s\<lparr>drivers := filter (\<lambda>d. driver_id d \<noteq> i) (drivers s)\<rparr>])"

definition getDriver :: "string \<Rightarrow> store \<Rightarrow> driver option" where
  "getDriver i s = find (\<lambda>d. driver_id d = i) (drivers s)"

text \<open>
  \<open>{ ...d.documents[documentId], status, comments }\<close>: spreading \<open>undefined\<close> adds no
  property; \<open>comments\<close> is written even when the caller leaves it out.
\<close>

definition empty_document :: driverDocument where
  "empty_document =
     \<lparr>doc_id = None, doc_type = None, doc_number = None, doc_expiryDate = None,
      doc_issuedDate = None, doc_status = None, doc_fileUrl = None, doc_comments = None\<rparr>"

definition verified_entry ::
  "driverDocument js_object \<Rightarrow> string \<Rightarrow> string \<Rightarrow> string option \<Rightarrow> driverDocument" where
  "verified_entry docs documentId st comments =
     (case obj_get docs documentId of None \<Rightarrow> empty_document | Some doc \<Rightarrow> doc)
       \<lparr>doc_status := Some st, doc_comments := comments\<rparr>"

definition verifyDocument ::
  "string \<Rightarrow> string \<Rightarrow> string \<Rightarrow> string option \<Rightarrow> store \<Rightarrow> unit outcome" where
  "verifyDocument driverId documentId st comments s =
     (Inr (),
      [s\<lparr>drivers :=
           map (\<lambda>d. if driver_id d = driverId
                    then d\<lparr>documents :=
                             obj_set documentId
                               (verified_entry (documents d) documentId st comments)
                               (documents d)\<rparr>
                    else d)
               (drivers s)\<rparr>])"

definition assignVehicle :: "string \<Rightarrow> string \<Rightarrow> store \<Rightarrow> unit outcome" where
  "assignVehicle driverId vid s =
     (Inr (),
      [s\<lparr>drivers :=
           map (\<lambda>d. if driver_id d = driverId then d\<lparr>vehicleId := Some vid\<rparr> else d)
               (drivers s)\<rparr>])"

definition unassignVehicle :: "string \<Rightarrow> store \<Rightarrow> unit outcome" where
  "unassignVehicle driverId s =
     (Inr (),
      [s\<lparr>drivers :=
           map (\<lambda>d. if driver_id d = driverId then d\<lparr>vehicleId := None\<rparr> else d)
               (drivers s)\<rparr>])"

definition updateOnboardingStatus :: "string \<Rightarrow> string \<Rightarrow> store \<Rightarrow> unit outcome" where
  "updateOnboardingStatus driverId st s =
     (Inr (),
      [s\<lparr>drivers :=
           map (\<lambda>d. if driver_id d = driverId then d\<lparr>onboardingStatus := st\<rparr> else d)
               (drivers s)\<rparr>])"

subsection \<open>Queries\<close>

definition getDriversByVendor :: "string \<Rightarrow> store \<Rightarrow> driver list" where
  "getDriversByVendor v s = filter (\<lambda>d. vendorId d = v) (drivers s)"

definition getActiveDrivers :: "store \<Rightarrow> driver list" where
  "getActiveDrivers s = filter (\<lambda>d. status d = ''active'') (drivers s)"

definition getPendingVerifications :: "store \<Rightarrow> driver list" where
  "getPendingVerifications s =
     filter (\<lambda>d. list_ex (\<lambda>doc. doc_status doc = Some ''pending'') (obj_values (documents d)))
            (drivers s)"

subsection \<open>Subscribers and accessors\<close>

text \<open>
  The store's \<open>set\<close> is the one of the zustand library: it assigns the merged state and
  then calls every subscribed callback with the new and the previous state, so an exception
  thrown by a callback leaves \<open>set\<close> after the state has been assigned. \<open>subs new old\<close> is
  what the callbacks do on such a call: \<open>None\<close> when they all return, \<open>Some e\<close> when one
  throws \<open>e\<close>. What a callback may do to the store itself is not modelled.

  The argument of \<open>addDriver\<close> is given here by what the spread \<open>...driverData\<close> yields:
  \<open>Inr\<close> with its properties, or \<open>Inl e\<close> when one of its accessors throws \<open>e\<close>. The
  spread comes first in the object literal, so nothing else of the \<open>try\<close> block has run
  when it throws.

  \<open>addDriver_subscribed\<close> is \<open>addDriver\<close> with both made explicit; \<open>addDriver\<close> itself is
  the case of an argument without accessors and of subscribers that return. \<open>Math.random\<close>
  and \<open>new Date().toISOString()\<close> on the current time do not throw. The first \<open>set\<close> is
  outside the \<open>try\<close> block: an exception there rejects the promise at once. An exception
  from the \<open>set\<close> of the \<open>catch\<close> block replaces the one being rethrown.
\<close>

type_synonym subscribers = "store \<Rightarrow> store \<Rightarrow> js_error option"

definition addDriver_try_subscribed ::
  "subscribers \<Rightarrow> js_error + driverData \<Rightarrow> string \<Rightarrow> clock \<Rightarrow> store \<Rightarrow> driver outcome" where
  "addDriver_try_subscribed subs arg rnd clk s =
     (case arg of
        Inl e \<Rightarrow> (Inl e, [])
      | Inr driverData \<Rightarrow>
          (let newDriver =
                 \<lparr>name = name driverData, phone = phone driverData, email = email driverData,
                  licenseNumber = licenseNumber driverData, vendorId = vendorId driverData,
                  vehicleId = vehicleId driverData,
                  documents = [],
                  metadata = \<lparr>totalTrips = 0, rating = 0, lastActive = None,
                              completedVerification = False\<rparr>,
                  driver_id = rnd, status = ''inactive'', onboardingStatus = ''pending'',
                  createdAt = clk 0, updatedAt = clk 1\<rparr>;
               s2 = s\<lparr>drivers := drivers s @ [newDriver], loading := False\<rparr>
           in case subs s2 s of
                Some e \<Rightarrow> (Inl e, [s2])
              | None \<Rightarrow> (Inr newDriver, [s2])))"

definition catch_block_subscribed ::
  "subscribers \<Rightarrow> string \<Rightarrow> store \<Rightarrow> 'a outcome \<Rightarrow> 'a outcome" where
  "catch_block_subscribed subs msg s1 out =
     (case out of
        (Inr v, tr) \<Rightarrow> (Inr v, tr)
      | (Inl e, tr) \<Rightarrow>
          (let cur = last (s1 # tr);
               s3 = cur\<lparr>error := Some msg, loading := False\<rparr>
           in case subs s3 cur of
                Some e' \<Rightarrow> (Inl e', tr @ [s3])
              | None \<Rightarrow> (Inl e, tr @ [s3])))"

definition addDriver_subscribed ::
  "subscribers \<Rightarrow> js_error + driverData \<Rightarrow> string \<Rightarrow> clock \<Rightarrow> store \<Rightarrow> driver outcome" where
  "addDriver_subscribed subs arg rnd clk s =
     (let s1 = s\<lparr>loading := True\<rparr>
      in case subs s1 s of
           Some e \<Rightarrow> (Inl e, [s1])
         | None \<Rightarrow>
             (let out = catch_block_subscribed subs ''Failed to add driver'' s1
                          (addDriver_try_subscribed subs arg rnd clk s1)
              in (fst out, s1 # snd out)))"

text \<open>No subscriber throws.\<close>

definition quiet :: subscribers where
  "quiet new old = None"


subsection \<open>Auxiliary notions for the statements\<close>

text \<open>
  \<open>resolved out\<close> is the value the promise resolves with, if it does. \<open>reads_before i ds j\<close>
  is the number of clock readings that a \<open>map\<close> matching on id \<open>i\<close> has made when it
  reaches position \<open>j\<close> of \<open>ds\<close>. \<open>no_updates\<close> is the argument \<open>{}\<close> of
  \<open>updateDriver\<close>, so \<open>no_updates\<lparr>upd_name := Some x\<rparr>\<close> is \<open>{ name: x }\<close>.
\<close>

definition resolved :: "'a outcome \<Rightarrow> 'a option" where
  "resolved out = (case fst out of Inr v \<Rightarrow> Some v | Inl e \<Rightarrow> None)"

definition reads_before :: "string \<Rightarrow> driver list \<Rightarrow> nat \<Rightarrow> nat" where
  "reads_before i ds j = length (filter (\<lambda>d. driver_id d = i) (take j ds))"

definition no_updates :: driverUpdates where
  "no_updates =
     \<lparr>upd_id = None, upd_name = None, upd_phone = None, upd_email = None,
      upd_licenseNumber = None, upd_vendorId = None, upd_status = None,
      upd_onboardingStatus = None, upd_vehicleId = None, upd_documents = None,
      upd_createdAt = None, upd_updatedAt = None, upd_metadata = None\<rparr>"

subsection \<open>Concrete inputs\<close>

definition example_data :: driverData where
  "example_data =
     \<lparr>name = ''Jane Roe'', phone = ''+1987654321'', email = ''jane@example.com'',
      licenseNumber = ''DL654321'', vendorId = ''2'', vehicleId = None,
      documents =
        [(''license'',
          \<lparr>doc_id = Some ''doc9'', doc_type = Some ''license'', doc_number = Some ''DL654321'',
           doc_expiryDate = Some ''2027-01-01'', doc_issuedDate = Some ''2022-01-01'',
           doc_status = Some ''verified'', doc_fileUrl = Some ''https://example.com/l.pdf'',
           doc_comments = None\<rparr>)],
      metadata = \<lparr>totalTrips = 7, rating = 5, lastActive = None,
                  completedVerification = True\<rparr>\<rparr>"

definition example_clock :: clock where
  "example_clock k =
     (if k = 0 then ''2024-04-01T10:00:00.000Z'' else ''2024-04-01T10:00:00.001Z'')"

text \<open>The store after one driver has been added to the seed data with token \<open>k3x9q0zab\<close>.\<close>

definition store_after_add :: store where
  "store_after_add =
     final initialStore (addDriver example_data ''k3x9q0zab'' example_clock initialStore)"

definition example_document :: documentDraft where
  "example_document =
     \<lparr>draft_type = ''license'', draft_number = ''DL777'', draft_expiryDate = ''2030-01-01'',
      draft_issuedDate = ''2024-01-01'', draft_status = ''verified'',
      draft_fileUrl = ''https://example.com/new.pdf'', draft_comments = None\<rparr>"

text \<open>The store after an update of an id that no record has.\<close>

definition store_after_failed_update :: store where
  "store_after_failed_update =
     final initialStore
       (updateDriver ''7'' (no_updates\<lparr>upd_name := Some ''X''\<rparr>) example_clock initialStore)"

text \<open>The store after a document has been uploaded for the seed driver.\<close>

definition store_after_upload :: store where
  "store_after_upload =
     final initialStore
       (uploadDocument ''1'' example_document ''a1b2c3d4e'' example_clock initialStore)"

text \<open>The seed store after vehicle \<open>V9\<close> has been assigned to the seed driver.\<close>

definition store_after_assign :: store where
  "store_after_assign = final initialStore (assignVehicle ''1'' ''V9'' initialStore)"

section \<open>Properties\<close>

subsection \<open>The map of updateDriver\<close>

lemma reads_before_0: "reads_before i ds 0 = 0"
  by (simp add: reads_before_def)

lemma reads_before_Cons_Suc:
  "reads_before i (d # ds) (Suc j) =
     (if driver_id d = i then Suc (reads_before i ds j) else reads_before i ds j)"
  by (simp add: reads_before_def)

lemma updateDriver_map_length:
  "length (fst (updateDriver_map i u clk k found ds)) = length ds"
  by (induction ds arbitrary: k found) (simp_all add: Let_def)

lemma updateDriver_map_nth:
  "j < length ds \<Longrightarrow>
   fst (updateDriver_map i u clk k found ds) ! j =
     (if driver_id (ds ! j) = i
      then (merge_updates (ds ! j) u)\<lparr>updatedAt := clk (k + reads_before i ds j)\<rparr>
      else ds ! j)"
proof (induction ds arbitrary: k found j)
  case Nil
  then show ?case by simp
next
  case (Cons d ds)
  show ?case
  proof (cases j)
    case 0
    then show ?thesis by (simp add: Let_def reads_before_0)
  next
    case (Suc j')
    with Cons.prems have "j' < length ds" by simp
    from Cons.IH [OF this] Suc show ?thesis
      by (simp add: Let_def reads_before_Cons_Suc)
  qed
qed

lemma updateDriver_map_absent:
  "i \<notin> set (map driver_id ds) \<Longrightarrow> updateDriver_map i u clk k found ds = (ds, found)"
  by (induction ds arbitrary: k found) (auto simp: Let_def)

text \<open>The variable \<open>updatedDriver\<close> ends up holding the last match, with the last reading.\<close>

lemma updateDriver_map_found:
  "snd (updateDriver_map i u clk k found ds) =
     (case filter (\<lambda>d. driver_id d = i) ds of
        [] \<Rightarrow> found
      | m # ms \<Rightarrow> Some ((merge_updates (last (m # ms)) u)\<lparr>updatedAt := clk (k + length ms)\<rparr>))"
proof (induction ds arbitrary: k found)
  case Nil
  then show ?case by simp
next
  case (Cons d ds)
  show ?case
  proof (cases "driver_id d = i")
    case True
    then show ?thesis
      using Cons.IH [of "Suc k"] by (simp add: Let_def split: list.splits)
  next
    case False
    then show ?thesis using Cons.IH [of k found] by (simp add: Let_def)
  qed
qed

lemma final_updateDriver:
  "drivers (final s (updateDriver i u clk s)) =
     fst (updateDriver_map i u clk 0 None (drivers s))"
  by (simp add: final_def updateDriver_def updateDriver_try_def catch_block_def Let_def
      split: option.splits)

lemma fst_updateDriver:
  "fst (updateDriver i u clk s) =
     (case snd (updateDriver_map i u clk 0 None (drivers s)) of
        None \<Rightarrow> Inl (Error ''Driver not found'')
      | Some r \<Rightarrow> Inr r)"
  by (simp add: updateDriver_def updateDriver_try_def catch_block_def Let_def
      split: option.splits)

subsection \<open>addDriver\<close>

text \<open>
  C1 (as amended). \<open>addDriver\<close> resolves with a record whose status is \<open>inactive\<close>, whose
  onboarding status is \<open>pending\<close>, whose document map is empty and whose metadata is zeroed,
  whatever the argument carries for the last two; \<open>createdAt\<close> and \<open>updatedAt\<close> are the
  two successive clock readings; the profile fields are the argument's; the record is
  appended to the collection. Its id is the generated token, so it differs from every id
  already in the collection when the token does: the code compares the token with nothing.
\<close>

theorem addDriver_new_record:
  "\<exists>r. fst (addDriver driverData rnd clk s) = Inr r \<and>
       status r = ''inactive'' \<and> onboardingStatus r = ''pending'' \<and>
       documents r = [] \<and>
       metadata r = \<lparr>totalTrips = 0, rating = 0, lastActive = None,
                     completedVerification = False\<rparr> \<and>
       createdAt r = clk 0 \<and> updatedAt r = clk 1 \<and>
       driver_id r = rnd \<and>
       (rnd \<notin> set (map driver_id (drivers s)) \<longrightarrow>
          driver_id r \<notin> set (map driver_id (drivers s))) \<and>
       name r = name driverData \<and> phone r = phone driverData \<and>
       email r = email driverData \<and> licenseNumber r = licenseNumber driverData \<and>
       vendorId r = vendorId driverData \<and> vehicleId r = vehicleId driverData \<and>
       drivers (final s (addDriver driverData rnd clk s)) = drivers s @ [r]"
  by (simp add: final_def addDriver_def addDriver_try_def catch_block_def Let_def)

text \<open>
  The amended C1 at the seed store: the token \<open>k3x9q0zab\<close> is not in use, and the argument's
  one document and its metadata do not reach the new record.
\<close>

theorem addDriver_new_record_witness:
  "''k3x9q0zab'' \<notin> set (map driver_id (drivers initialStore)) \<and>
   (\<exists>r. fst (addDriver example_data ''k3x9q0zab'' example_clock initialStore) = Inr r \<and>
        documents r = [] \<and> totalTrips (metadata r) = 0 \<and>
        driver_id r \<notin> set (map driver_id (drivers initialStore)) \<and>
        drivers (final initialStore
                  (addDriver example_data ''k3x9q0zab'' example_clock initialStore))
          = drivers initialStore @ [r])"
proof -
  have h: "''k3x9q0zab'' \<notin> set (map driver_id (drivers initialStore))"
    by (simp add: initialStore_def initialDrivers_def)
  from addDriver_new_record [of example_data "''k3x9q0zab''" example_clock initialStore]
  obtain r where
    "fst (addDriver example_data ''k3x9q0zab'' example_clock initialStore) = Inr r"
    "documents r = []"
    "metadata r = \<lparr>totalTrips = 0, rating = 0, lastActive = None,
                    completedVerification = False\<rparr>"
    "''k3x9q0zab'' \<notin> set (map driver_id (drivers initialStore)) \<longrightarrow>
       driver_id r \<notin> set (map driver_id (drivers initialStore))"
    "drivers (final initialStore
               (addDriver example_data ''k3x9q0zab'' example_clock initialStore))
       = drivers initialStore @ [r]"
    by blast
  with h have
    "fst (addDriver example_data ''k3x9q0zab'' example_clock initialStore) = Inr r \<and>
     documents r = [] \<and> totalTrips (metadata r) = 0 \<and>
     driver_id r \<notin> set (map driver_id (drivers initialStore)) \<and>
     drivers (final initialStore
               (addDriver example_data ''k3x9q0zab'' example_clock initialStore))
       = drivers initialStore @ [r]"
    by simp
  with h show ?thesis by blast
qed

text \<open>
  C1 as stated fails: when the generator yields a token a second time, the record returned
  carries an id that a record of the collection already has.
\<close>

theorem addDriver_id_collision:
  "map_option driver_id
     (resolved (addDriver example_data ''k3x9q0zab'' example_clock store_after_add))
     = Some ''k3x9q0zab'' \<and>
   ''k3x9q0zab'' \<in> set (map driver_id (drivers store_after_add))"
  by (simp add: resolved_def store_after_add_def final_def addDriver_def addDriver_try_def
      catch_block_def Let_def)

text \<open>Without accessors and with subscribers that return, the two definitions agree.\<close>

lemma addDriver_quiet:
  "addDriver_subscribed quiet (Inr driverData) rnd clk s = addDriver driverData rnd clk s"
  by (simp add: addDriver_subscribed_def addDriver_try_subscribed_def
      catch_block_subscribed_def quiet_def addDriver_def addDriver_try_def catch_block_def
      Let_def)




subsection \<open>updateDriver\<close>

text \<open>
  C3. When no record of the collection has the id, \<open>updateDriver\<close> rejects with the error
  \<open>Driver not found\<close>, whatever the partial fields are, and the collection is the same in
  the final store and in each of the three snapshots published on the way.
\<close>

theorem updateDriver_not_found:
  assumes "i \<notin> set (map driver_id (drivers s))"
  shows "fst (updateDriver i u clk s) = Inl (Error ''Driver not found'') \<and>
         drivers (final s (updateDriver i u clk s)) = drivers s \<and>
         map drivers (snd (updateDriver i u clk s)) = [drivers s, drivers s, drivers s]"
  using assms
  by (simp add: final_def updateDriver_def updateDriver_try_def catch_block_def Let_def
      updateDriver_map_absent)

theorem updateDriver_not_found_witness:
  "''7'' \<notin> set (map driver_id (drivers initialStore)) \<and>
   fst (updateDriver ''7'' (no_updates\<lparr>upd_name := Some ''X''\<rparr>) example_clock initialStore)
     = Inl (Error ''Driver not found'') \<and>
   drivers (final initialStore
             (updateDriver ''7'' (no_updates\<lparr>upd_name := Some ''X''\<rparr>) example_clock
                initialStore))
     = drivers initialStore"
proof -
  have h: "''7'' \<notin> set (map driver_id (drivers initialStore))"
    by (simp add: initialStore_def initialDrivers_def)
  from updateDriver_not_found [OF h, of "no_updates\<lparr>upd_name := Some ''X''\<rparr>" example_clock] h
  show ?thesis by simp
qed

lemma merge_name_only:
  "merge_updates d (no_updates\<lparr>upd_name := Some x\<rparr>) = d\<lparr>name := x\<rparr>"
  by (simp add: merge_updates_def no_updates_def)

lemma driver_id_merge_updates:
  "driver_id (merge_updates d u) = (case upd_id u of None \<Rightarrow> driver_id d | Some v \<Rightarrow> v)"
  by (simp add: merge_updates_def)

lemma filter_updateDriver_map:
  "upd_id u = None \<Longrightarrow>
   filter (\<lambda>d. driver_id d = i) (fst (updateDriver_map i u clk k found ds)) =
     fst (updateDriver_map i u clk k found (filter (\<lambda>d. driver_id d = i) ds))"
  by (induction ds arbitrary: k found) (simp_all add: Let_def driver_id_merge_updates)

lemma updateDriver_map_all_match:
  "\<forall>d \<in> set ds. driver_id d = i \<Longrightarrow> ds \<noteq> [] \<Longrightarrow>
   snd (updateDriver_map i u clk k found ds) =
     Some (last (fst (updateDriver_map i u clk k found ds)))"
proof (induction ds arbitrary: k found)
  case Nil
  then show ?case by simp
next
  case (Cons d ds)
  show ?case
  proof (cases "ds = []")
    case True
    with Cons.prems show ?thesis by (simp add: Let_def)
  next
    case False
    have "fst (updateDriver_map i u clk (Suc k) (Some (merge_updates d u\<lparr>updatedAt := clk k\<rparr>)) ds) \<noteq> []"
      using False updateDriver_map_length [of i u clk "Suc k" _ ds] by (metis length_0_conv)
    with Cons.prems Cons.IH [OF _ False] show ?thesis by (simp add: Let_def)
  qed
qed

lemma updateDriver_returns_last:
  assumes "i \<in> set (map driver_id ds)" "upd_id u = None"
  shows "snd (updateDriver_map i u clk k found ds) =
           Some (last (filter (\<lambda>d. driver_id d = i) (fst (updateDriver_map i u clk k found ds))))"
proof -
  let ?ms = "filter (\<lambda>d. driver_id d = i) ds"
  from assms(1) have ne: "?ms \<noteq> []" by (auto simp: filter_empty_conv)
  have "snd (updateDriver_map i u clk k found ds) = snd (updateDriver_map i u clk k found ?ms)"
    by (simp add: updateDriver_map_found)
  also have "\<dots> = Some (last (fst (updateDriver_map i u clk k found ?ms)))"
    by (rule updateDriver_map_all_match) (use ne in auto)
  finally show ?thesis by (simp add: filter_updateDriver_map assms(2))
qed

text \<open>
  C2. When some record has the id, \<open>updateDriver(id, { name: x })\<close> leaves the collection
  at its length; a record with another id is the record it was; a record with the id is the
  record it was with \<open>name\<close> set to \<open>x\<close> and \<open>updatedAt\<close> set to the clock reading made
  for it, every other field as before; and the promise resolves with the updated record (the
  last one with the id, should several records share it).
\<close>

theorem updateDriver_name_only:
  assumes "i \<in> set (map driver_id (drivers s))"
  shows "length (drivers (final s (updateDriver i (no_updates\<lparr>upd_name := Some x\<rparr>) clk s)))
           = length (drivers s) \<and>
         (\<forall>j < length (drivers s).
            drivers (final s (updateDriver i (no_updates\<lparr>upd_name := Some x\<rparr>) clk s)) ! j =
              (if driver_id (drivers s ! j) = i
               then (drivers s ! j)\<lparr>name := x, updatedAt := clk (reads_before i (drivers s) j)\<rparr>
               else drivers s ! j)) \<and>
         fst (updateDriver i (no_updates\<lparr>upd_name := Some x\<rparr>) clk s) =
           Inr (last (filter (\<lambda>d. driver_id d = i)
                  (drivers (final s (updateDriver i (no_updates\<lparr>upd_name := Some x\<rparr>) clk s)))))"
proof -
  let ?u = "no_updates\<lparr>upd_name := Some x\<rparr>"
  have u: "upd_id ?u = None" by (simp add: no_updates_def)
  have "length (drivers (final s (updateDriver i ?u clk s))) = length (drivers s)"
    by (simp add: final_updateDriver updateDriver_map_length)
  moreover have "\<forall>j < length (drivers s).
      drivers (final s (updateDriver i ?u clk s)) ! j =
        (if driver_id (drivers s ! j) = i
         then (drivers s ! j)\<lparr>name := x, updatedAt := clk (reads_before i (drivers s) j)\<rparr>
         else drivers s ! j)"
    by (simp add: final_updateDriver updateDriver_map_nth merge_name_only)
  moreover have "fst (updateDriver i ?u clk s) =
      Inr (last (filter (\<lambda>d. driver_id d = i) (drivers (final s (updateDriver i ?u clk s)))))"
    using updateDriver_returns_last [OF assms u, of clk 0 None]
    by (simp add: final_updateDriver fst_updateDriver)
  ultimately show ?thesis by blast
qed

theorem updateDriver_name_only_witness:
  "''1'' \<in> set (map driver_id (drivers initialStore)) \<and>
   map name (drivers (final initialStore
      (updateDriver ''1'' (no_updates\<lparr>upd_name := Some ''X''\<rparr>) example_clock initialStore)))
     = [''X''] \<and>
   map updatedAt (drivers (final initialStore
      (updateDriver ''1'' (no_updates\<lparr>upd_name := Some ''X''\<rparr>) example_clock initialStore)))
     = [''2024-04-01T10:00:00.000Z''] \<and>
   resolved (updateDriver ''1'' (no_updates\<lparr>upd_name := Some ''X''\<rparr>) example_clock initialStore)
     = Some ((hd initialDrivers)\<lparr>name := ''X'', updatedAt := ''2024-04-01T10:00:00.000Z''\<rparr>)"
proof -
  let ?out = "updateDriver ''1'' (no_updates\<lparr>upd_name := Some ''X''\<rparr>) example_clock initialStore"
  have h: "''1'' \<in> set (map driver_id (drivers initialStore))"
    by (simp add: initialStore_def initialDrivers_def)
  have len: "length (drivers initialStore) = 1" and d0: "drivers initialStore ! 0 = hd initialDrivers"
    and id0: "driver_id (hd initialDrivers) = ''1''"
    by (simp_all add: initialStore_def initialDrivers_def)
  note t = updateDriver_name_only [OF h, of "''X''" example_clock]
  from t have l: "length (drivers (final initialStore ?out)) = 1" by (simp add: len)
  from t len have "drivers (final initialStore ?out) ! 0 =
      (if driver_id (drivers initialStore ! 0) = ''1''
       then (drivers initialStore ! 0)\<lparr>name := ''X'',
              updatedAt := example_clock (reads_before ''1'' (drivers initialStore) 0)\<rparr>
       else drivers initialStore ! 0)"
    by simp
  then have n0: "drivers (final initialStore ?out) ! 0 =
      (hd initialDrivers)\<lparr>name := ''X'', updatedAt := ''2024-04-01T10:00:00.000Z''\<rparr>"
    by (simp add: d0 id0 reads_before_0 example_clock_def)
  from l obtain r where r: "drivers (final initialStore ?out) = [r]"
    by (cases "drivers (final initialStore ?out)") auto
  with n0 have r': "r = (hd initialDrivers)\<lparr>name := ''X'', updatedAt := ''2024-04-01T10:00:00.000Z''\<rparr>"
    by simp
  from t have "fst ?out = Inr (last (filter (\<lambda>d. driver_id d = ''1'') (drivers (final initialStore ?out))))"
    by simp
  then have "resolved ?out = Some r"
    by (simp add: r r' id0 resolved_def)
  with h r r' show ?thesis by simp
qed

subsection \<open>Objects\<close>

lemma obj_get_obj_set:
  "obj_get (obj_set k v ob) k' = (if k' = k then Some v else obj_get ob k')"
  by (induction ob) (auto simp: obj_get_def)

lemma obj_set_new_key:
  "k \<notin> set (map fst ob) \<Longrightarrow> obj_set k v ob = ob @ [(k, v)]"
  by (induction ob) auto

lemma obj_get_absent:
  "k \<notin> set (map fst ob) \<Longrightarrow> obj_get ob k = None"
  by (simp add: obj_get_def map_of_eq_None_iff)

subsection \<open>uploadDocument\<close>

lemma uploadDocument_map_length:
  "length (uploadDocument_map i doc t clk k ds) = length ds"
  by (induction ds arbitrary: k) simp_all

lemma uploadDocument_map_nth:
  "j < length ds \<Longrightarrow>
   uploadDocument_map i doc t clk k ds ! j =
     (if driver_id (ds ! j) = i
      then (ds ! j)\<lparr>documents := obj_set (draft_type doc) (new_document doc t) (documents (ds ! j)),
                    updatedAt := clk (k + reads_before i ds j)\<rparr>
      else ds ! j)"
proof (induction ds arbitrary: k j)
  case Nil
  then show ?case by simp
next
  case (Cons d ds)
  show ?case
  proof (cases j)
    case 0
    then show ?thesis by (simp add: reads_before_0)
  next
    case (Suc j')
    with Cons.prems have "j' < length ds" by simp
    from Cons.IH [OF this] Suc show ?thesis
      by (simp add: reads_before_Cons_Suc)
  qed
qed

lemma uploadDocument_map_absent:
  "i \<notin> set (map driver_id ds) \<Longrightarrow> uploadDocument_map i doc t clk k ds = ds"
  by (induction ds arbitrary: k) auto

lemma uploadDocument_map_ids:
  "map driver_id (uploadDocument_map i doc t clk k ds) = map driver_id ds"
  by (induction ds arbitrary: k) simp_all

lemma final_uploadDocument:
  "drivers (final s (uploadDocument i doc t clk s)) =
     uploadDocument_map i doc t clk 0 (drivers s)"
  by (simp add: final_def uploadDocument_def uploadDocument_try_def catch_block_def Let_def)

lemma fst_uploadDocument: "fst (uploadDocument i doc t clk s) = Inr ()"
  by (simp add: uploadDocument_def uploadDocument_try_def catch_block_def Let_def)

text \<open>
  C6. \<open>uploadDocument\<close> always resolves. The collection keeps its length. A record with
  the driver id becomes the record it was with the new document stored under the key equal
  to the draft's type and \<open>updatedAt\<close> set to the clock reading made for it; looking up
  that key gives the new document, whatever was stored there before, and every other key
  gives what it gave before. The new document has the generated token as its id and status
  \<open>pending\<close>, whatever status the draft carries. A record with another id is unchanged,
  and when no record has the driver id the collection is unchanged.
\<close>

theorem uploadDocument_stores_pending:
  "fst (uploadDocument driverId document rnd clk s) = Inr () \<and>
   length (drivers (final s (uploadDocument driverId document rnd clk s))) = length (drivers s) \<and>
   (\<forall>j < length (drivers s).
      if driver_id (drivers s ! j) = driverId
      then drivers (final s (uploadDocument driverId document rnd clk s)) ! j =
             (drivers s ! j)
               \<lparr>documents := obj_set (draft_type document) (new_document document rnd)
                               (documents (drivers s ! j)),
                updatedAt := clk (reads_before driverId (drivers s) j)\<rparr> \<and>
           (\<forall>k. obj_get
                  (documents (drivers (final s (uploadDocument driverId document rnd clk s)) ! j)) k =
                (if k = draft_type document then Some (new_document document rnd)
                 else obj_get (documents (drivers s ! j)) k))
      else drivers (final s (uploadDocument driverId document rnd clk s)) ! j = drivers s ! j) \<and>
   doc_id (new_document document rnd) = Some rnd \<and>
   doc_status (new_document document rnd) = Some ''pending'' \<and>
   doc_type (new_document document rnd) = Some (draft_type document) \<and>
   (driverId \<notin> set (map driver_id (drivers s)) \<longrightarrow>
      drivers (final s (uploadDocument driverId document rnd clk s)) = drivers s)"
  by (simp add: fst_uploadDocument final_uploadDocument uploadDocument_map_length
      uploadDocument_map_nth uploadDocument_map_absent obj_get_obj_set new_document_def)

theorem uploadDocument_stores_pending_witness:
  "''1'' \<in> set (map driver_id (drivers initialStore)) \<and>
   map_option doc_number
     (obj_get (documents (drivers (final initialStore
        (uploadDocument ''1'' example_document ''a1b2c3d4e'' example_clock initialStore)) ! 0))
        ''license'') = Some (Some ''DL777'') \<and>
   map_option doc_status
     (obj_get (documents (drivers (final initialStore
        (uploadDocument ''1'' example_document ''a1b2c3d4e'' example_clock initialStore)) ! 0))
        ''license'') = Some (Some ''pending'') \<and>
   ''nobody'' \<notin> set (map driver_id (drivers initialStore)) \<and>
   drivers (final initialStore
     (uploadDocument ''nobody'' example_document ''a1b2c3d4e'' example_clock initialStore))
     = drivers initialStore"
proof -
  have len: "0 < length (drivers initialStore)" and id0: "driver_id (drivers initialStore ! 0) = ''1''"
    and h1: "''1'' \<in> set (map driver_id (drivers initialStore))"
    and h2: "''nobody'' \<notin> set (map driver_id (drivers initialStore))"
    by (simp_all add: initialStore_def initialDrivers_def)
  have dt: "draft_type example_document = ''license''"
    by (simp add: example_document_def)
  note t1 = uploadDocument_stores_pending
              [of "''1''" example_document "''a1b2c3d4e''" example_clock initialStore]
  note t2 = uploadDocument_stores_pending
              [of "''nobody''" example_document "''a1b2c3d4e''" example_clock initialStore]
  note a = t1 [THEN conjunct2, THEN conjunct2, THEN conjunct1, rule_format, OF len,
                unfolded id0 simp_thms if_True, THEN conjunct2, rule_format, of "''license''"]
  then have
    "obj_get (documents (drivers (final initialStore
        (uploadDocument ''1'' example_document ''a1b2c3d4e'' example_clock initialStore)) ! 0))
        ''license'' = Some (new_document example_document ''a1b2c3d4e'')"
    by (simp add: dt)
  moreover from t2 h2 have "drivers (final initialStore
     (uploadDocument ''nobody'' example_document ''a1b2c3d4e'' example_clock initialStore))
     = drivers initialStore"
    by blast
  ultimately show ?thesis using h1 h2
    by (simp add: new_document_def example_document_def)
qed

subsection \<open>verifyDocument\<close>

text \<open>
  C7. For a driver of the collection (at position \<open>j\<close>, with the driver id) whose document
  map has no key \<open>documentId\<close>, \<open>verifyDocument\<close> resolves and adds an entry under that
  key (the map has one entry more; in the list that stands for it the entry comes last). The
  entry has the given status and comments and no other property: no id, type, number, dates
  or file reference. Every other key leads to what it led to before, every other field of
  the record is as before, and in particular \<open>updatedAt\<close> is what it was.
\<close>

theorem verifyDocument_unknown_key:
  assumes "j < length (drivers s)"
    and "driver_id (drivers s ! j) = driverId"
    and "documentId \<notin> set (map fst (documents (drivers s ! j)))"
  shows "fst (verifyDocument driverId documentId st comments s) = Inr () \<and>
         drivers (final s (verifyDocument driverId documentId st comments s)) ! j =
           (drivers s ! j)
             \<lparr>documents := documents (drivers s ! j) @
                [(documentId,
                  \<lparr>doc_id = None, doc_type = None, doc_number = None, doc_expiryDate = None,
                   doc_issuedDate = None, doc_status = Some st, doc_fileUrl = None,
                   doc_comments = comments\<rparr>)]\<rparr> \<and>
         (\<forall>k. obj_get
                (documents (drivers (final s (verifyDocument driverId documentId st comments s)) ! j))
                k =
              (if k = documentId
               then Some \<lparr>doc_id = None, doc_type = None, doc_number = None,
                          doc_expiryDate = None, doc_issuedDate = None, doc_status = Some st,
                          doc_fileUrl = None, doc_comments = comments\<rparr>
               else obj_get (documents (drivers s ! j)) k)) \<and>
         updatedAt (drivers (final s (verifyDocument driverId documentId st comments s)) ! j) =
           updatedAt (drivers s ! j)"
proof -
  let ?entry = "\<lparr>doc_id = None, doc_type = None, doc_number = None, doc_expiryDate = None,
                 doc_issuedDate = None, doc_status = Some st, doc_fileUrl = None,
                 doc_comments = comments\<rparr>"
  let ?d = "drivers s ! j"
  let ?d' = "drivers (final s (verifyDocument driverId documentId st comments s)) ! j"
  have entry: "verified_entry (documents ?d) documentId st comments = ?entry"
    using assms(3) by (simp add: verified_entry_def obj_get_absent empty_document_def)
  have nth: "?d' = ?d\<lparr>documents := obj_set documentId ?entry (documents ?d)\<rparr>"
    using assms(1,2) by (simp add: verifyDocument_def final_def entry)
  have app: "obj_set documentId ?entry (documents ?d) = documents ?d @ [(documentId, ?entry)]"
    using assms(3) by (rule obj_set_new_key)
  have get: "\<forall>k. obj_get (documents ?d') k =
      (if k = documentId then Some ?entry else obj_get (documents ?d) k)"
    unfolding nth by (simp add: obj_get_obj_set del: obj_set.simps)
  have "fst (verifyDocument driverId documentId st comments s) = Inr ()"
    by (simp add: verifyDocument_def)
  moreover have "?d' = ?d\<lparr>documents := documents ?d @ [(documentId, ?entry)]\<rparr>"
    using nth app by simp
  moreover have "updatedAt ?d' = updatedAt ?d"
    unfolding nth by simp
  ultimately show ?thesis using get by blast
qed

theorem verifyDocument_unknown_key_witness:
  "0 < length (drivers initialStore) \<and> driver_id (drivers initialStore ! 0) = ''1'' \<and>
   ''doc1'' \<notin> set (map fst (documents (drivers initialStore ! 0))) \<and>
   map fst (documents (drivers (final initialStore
       (verifyDocument ''1'' ''doc1'' ''rejected'' (Some ''blurred'') initialStore)) ! 0))
     = [''license'', ''permit'', ''doc1''] \<and>
   map_option doc_type
     (obj_get (documents (drivers (final initialStore
       (verifyDocument ''1'' ''doc1'' ''rejected'' (Some ''blurred'') initialStore)) ! 0)) ''doc1'')
     = Some None \<and>
   map_option doc_status
     (obj_get (documents (drivers (final initialStore
       (verifyDocument ''1'' ''doc1'' ''rejected'' (Some ''blurred'') initialStore)) ! 0)) ''license'')
     = Some (Some ''verified'') \<and>
   updatedAt (drivers (final initialStore
       (verifyDocument ''1'' ''doc1'' ''rejected'' (Some ''blurred'') initialStore)) ! 0)
     = ''2024-03-15T00:00:00Z''"
proof -
  have h: "0 < length (drivers initialStore)" "driver_id (drivers initialStore ! 0) = ''1''"
    "''doc1'' \<notin> set (map fst (documents (drivers initialStore ! 0)))"
    by (simp_all add: initialStore_def initialDrivers_def)
  from verifyDocument_unknown_key [OF h, of "''rejected''" "Some ''blurred''"]
  have "drivers (final initialStore
       (verifyDocument ''1'' ''doc1'' ''rejected'' (Some ''blurred'') initialStore)) ! 0 =
     (drivers initialStore ! 0)
             \<lparr>documents := documents (drivers initialStore ! 0) @
                [(''doc1'',
                  \<lparr>doc_id = None, doc_type = None, doc_number = None, doc_expiryDate = None,
                   doc_issuedDate = None, doc_status = Some ''rejected'', doc_fileUrl = None,
                   doc_comments = Some ''blurred''\<rparr>)]\<rparr>"
    by blast
  then show ?thesis using h
    by (simp add: initialStore_def initialDrivers_def obj_get_def)
qed

subsection \<open>Identifiers\<close>

lemma updateDriver_map_ids:
  "upd_id u = None \<Longrightarrow>
   map driver_id (fst (updateDriver_map i u clk k found ds)) = map driver_id ds"
  by (induction ds arbitrary: k found) (simp_all add: Let_def driver_id_merge_updates)

lemma updateDriver_returned_id:
  assumes "i \<in> set (map driver_id ds)"
  shows "\<exists>r. snd (updateDriver_map i u clk k found ds) = Some r \<and>
              driver_id r = (case upd_id u of None \<Rightarrow> i | Some v \<Rightarrow> v)"
proof -
  from assms obtain m ms where f: "filter (\<lambda>d. driver_id d = i) ds = m # ms"
    by (cases "filter (\<lambda>d. driver_id d = i) ds") (auto simp: filter_empty_conv)
  have "last (m # ms) \<in> set (filter (\<lambda>d. driver_id d = i) ds)"
    unfolding f by (rule last_in_set) simp
  then have "driver_id (last (m # ms)) = i" by simp
  then show ?thesis
    by (simp add: updateDriver_map_found f driver_id_merge_updates del: last.simps
        split: option.splits)
qed

text \<open>
  C5 (as amended). When some record has the id, \<open>updateDriver(id, updates)\<close> resolves with
  a record whose id is \<open>id\<close> if \<open>updates\<close> gives no \<open>id\<close>, and the given one otherwise;
  with no \<open>id\<close> in \<open>updates\<close> the ids of the collection stay as they are, position by
  position. \<open>uploadDocument\<close>, \<open>verifyDocument\<close>, \<open>assignVehicle\<close>, \<open>unassignVehicle\<close>
  and \<open>updateOnboardingStatus\<close> leave the ids as they are; \<open>addDriver\<close> adds the token
  after them and \<open>deleteDriver\<close> removes the ids equal to its argument.
\<close>

theorem driver_id_kept_unless_given:
  assumes "i \<in> set (map driver_id (drivers s))"
  shows "(\<exists>r. fst (updateDriver i u clk s) = Inr r \<and>
              driver_id r = (case upd_id u of None \<Rightarrow> i | Some v \<Rightarrow> v)) \<and>
         (upd_id u = None \<longrightarrow>
            map driver_id (drivers (final s (updateDriver i u clk s))) = map driver_id (drivers s)) \<and>
         map driver_id (drivers (final s (uploadDocument i document rnd clk s)))
           = map driver_id (drivers s) \<and>
         map driver_id (drivers (final s (verifyDocument i documentId st comments s)))
           = map driver_id (drivers s) \<and>
         map driver_id (drivers (final s (assignVehicle i vid s))) = map driver_id (drivers s) \<and>
         map driver_id (drivers (final s (unassignVehicle i s))) = map driver_id (drivers s) \<and>
         map driver_id (drivers (final s (updateOnboardingStatus i st s)))
           = map driver_id (drivers s) \<and>
         map driver_id (drivers (final s (addDriver driverData rnd clk s)))
           = map driver_id (drivers s) @ [rnd] \<and>
         map driver_id (drivers (final s (deleteDriver i' s)))
           = filter (\<lambda>x. x \<noteq> i') (map driver_id (drivers s))"
proof -
  have "\<exists>r. fst (updateDriver i u clk s) = Inr r \<and>
              driver_id r = (case upd_id u of None \<Rightarrow> i | Some v \<Rightarrow> v)"
    using updateDriver_returned_id [OF assms, of u clk 0 None]
    by (auto simp: fst_updateDriver)
  moreover have "upd_id u = None \<longrightarrow>
      map driver_id (drivers (final s (updateDriver i u clk s))) = map driver_id (drivers s)"
    by (simp add: final_updateDriver updateDriver_map_ids)
  moreover have "map driver_id (drivers (final s (uploadDocument i document rnd clk s)))
           = map driver_id (drivers s)"
    by (simp add: final_uploadDocument uploadDocument_map_ids)
  moreover have "map driver_id (drivers (final s (verifyDocument i documentId st comments s)))
           = map driver_id (drivers s)"
    by (simp add: verifyDocument_def final_def comp_def if_distrib [of driver_id])
  moreover have "map driver_id (drivers (final s (assignVehicle i vid s))) = map driver_id (drivers s)"
    by (simp add: assignVehicle_def final_def comp_def if_distrib [of driver_id])
  moreover have "map driver_id (drivers (final s (unassignVehicle i s))) = map driver_id (drivers s)"
    by (simp add: unassignVehicle_def final_def comp_def if_distrib [of driver_id])
  moreover have "map driver_id (drivers (final s (updateOnboardingStatus i st s)))
           = map driver_id (drivers s)"
    by (simp add: updateOnboardingStatus_def final_def comp_def if_distrib [of driver_id])
  moreover have "map driver_id (drivers (final s (addDriver driverData rnd clk s)))
           = map driver_id (drivers s) @ [rnd]"
    by (simp add: final_def addDriver_def addDriver_try_def catch_block_def Let_def)
  moreover have "map driver_id (drivers (final s (deleteDriver i' s)))
           = filter (\<lambda>x. x \<noteq> i') (map driver_id (drivers s))"
    by (simp add: final_def deleteDriver_def filter_map comp_def)
  ultimately show ?thesis by blast
qed

theorem driver_id_kept_unless_given_witness:
  "''1'' \<in> set (map driver_id (drivers initialStore)) \<and>
   map_option driver_id
     (resolved (updateDriver ''1'' (no_updates\<lparr>upd_name := Some ''X''\<rparr>) example_clock initialStore))
     = Some ''1'' \<and>
   map driver_id (drivers (final initialStore
      (updateDriver ''1'' (no_updates\<lparr>upd_name := Some ''X''\<rparr>) example_clock initialStore)))
     = [''1'']"
proof -
  have h: "''1'' \<in> set (map driver_id (drivers initialStore))"
    and ids: "map driver_id (drivers initialStore) = [''1'']"
    by (simp_all add: initialStore_def initialDrivers_def)
  have u: "upd_id (no_updates\<lparr>upd_name := Some ''X''\<rparr>) = None"
    by (simp add: no_updates_def)
  note t = driver_id_kept_unless_given
             [OF h, of "no_updates\<lparr>upd_name := Some ''X''\<rparr>" example_clock]
  from t [THEN conjunct1] u have
    "map_option driver_id
     (resolved (updateDriver ''1'' (no_updates\<lparr>upd_name := Some ''X''\<rparr>) example_clock initialStore))
     = Some ''1''"
    by (auto simp: resolved_def)
  moreover from t [THEN conjunct2, THEN conjunct1] u ids have
    "map driver_id (drivers (final initialStore
      (updateDriver ''1'' (no_updates\<lparr>upd_name := Some ''X''\<rparr>) example_clock initialStore)))
     = [''1'']"
    by simp
  ultimately show ?thesis using h by blast
qed

text \<open>
  C5 as stated fails: \<open>Partial<Driver>\<close> admits \<open>id\<close>, and the merge writes it. Updating
  the seed driver \<open>1\<close> with \<open>{ id: '2' }\<close> resolves with a record whose id is \<open>2\<close>, and
  the collection then holds id \<open>2\<close> where it held \<open>1\<close>.
\<close>

theorem updateDriver_changes_id:
  "map_option driver_id
     (resolved (updateDriver ''1'' (no_updates\<lparr>upd_id := Some ''2''\<rparr>) example_clock initialStore))
     = Some ''2'' \<and>
   map driver_id (drivers initialStore) = [''1''] \<and>
   map driver_id (drivers (final initialStore
      (updateDriver ''1'' (no_updates\<lparr>upd_id := Some ''2''\<rparr>) example_clock initialStore)))
     = [''2'']"
  by (simp add: resolved_def final_def updateDriver_def updateDriver_try_def catch_block_def
      Let_def initialStore_def initialDrivers_def merge_updates_def no_updates_def)

subsection \<open>Request status\<close>

text \<open>
  C9 (as amended). \<open>addDriver\<close>, \<open>updateDriver\<close> and \<open>uploadDocument\<close> first publish the
  store with the loading flag raised and nothing else changed, and the flag is down when
  they are over. When the promise of one of them resolves, the error field is what it was
  before the operation (it is not cleared). When the promise of \<open>updateDriver\<close> rejects,
  the error field holds \<open>Failed to update driver\<close>.
\<close>

theorem guarded_operations_status:
  "hd (snd (addDriver driverData rnd clk s)) = s\<lparr>loading := True\<rparr> \<and>
   loading (final s (addDriver driverData rnd clk s)) = False \<and>
   (resolved (addDriver driverData rnd clk s) \<noteq> None \<longrightarrow>
      error (final s (addDriver driverData rnd clk s)) = error s) \<and>
   hd (snd (uploadDocument driverId document rnd clk s)) = s\<lparr>loading := True\<rparr> \<and>
   loading (final s (uploadDocument driverId document rnd clk s)) = False \<and>
   (resolved (uploadDocument driverId document rnd clk s) \<noteq> None \<longrightarrow>
      error (final s (uploadDocument driverId document rnd clk s)) = error s) \<and>
   hd (snd (updateDriver i u clk s)) = s\<lparr>loading := True\<rparr> \<and>
   loading (final s (updateDriver i u clk s)) = False \<and>
   (if resolved (updateDriver i u clk s) \<noteq> None
    then error (final s (updateDriver i u clk s)) = error s
    else error (final s (updateDriver i u clk s)) = Some ''Failed to update driver'')"
  by (simp add: final_def resolved_def addDriver_def addDriver_try_def uploadDocument_def
      uploadDocument_try_def updateDriver_def updateDriver_try_def catch_block_def Let_def
      split: option.splits)

text \<open>
  The amended C9 on the seed store: an update of driver \<open>1\<close> resolves and leaves the error
  field empty, an update of the unknown id \<open>7\<close> rejects and sets the message, and an
  \<open>addDriver\<close> after that resolves and leaves the message where it is.
\<close>

theorem guarded_operations_status_witness:
  "resolved (updateDriver ''1'' no_updates example_clock initialStore) \<noteq> None \<and>
   error (final initialStore (updateDriver ''1'' no_updates example_clock initialStore)) = None \<and>
   resolved (updateDriver ''7'' no_updates example_clock initialStore) = None \<and>
   error (final initialStore (updateDriver ''7'' no_updates example_clock initialStore))
     = Some ''Failed to update driver'' \<and>
   resolved (addDriver example_data ''k3x9q0zab'' example_clock store_after_failed_update)
     \<noteq> None \<and>
   error (final store_after_failed_update
           (addDriver example_data ''k3x9q0zab'' example_clock store_after_failed_update))
     = error store_after_failed_update"
proof -
  have r1: "resolved (updateDriver ''1'' no_updates example_clock initialStore) \<noteq> None"
    and r7: "resolved (updateDriver ''7'' no_updates example_clock initialStore) = None"
    by (simp_all add: resolved_def fst_updateDriver initialStore_def initialDrivers_def Let_def)
  have ra: "resolved (addDriver example_data ''k3x9q0zab'' example_clock
              store_after_failed_update) \<noteq> None"
    by (simp add: resolved_def addDriver_def addDriver_try_def catch_block_def Let_def)
  have e: "error initialStore = None" by (simp add: initialStore_def)
  from guarded_operations_status
         [where s = initialStore and i = "''1''" and u = no_updates and clk = example_clock]
       r1 e
  have "error (final initialStore (updateDriver ''1'' no_updates example_clock initialStore)) = None"
    by simp
  moreover
  from guarded_operations_status
         [where s = initialStore and i = "''7''" and u = no_updates and clk = example_clock]
       r7
  have "error (final initialStore (updateDriver ''7'' no_updates example_clock initialStore))
     = Some ''Failed to update driver''"
    by simp
  moreover
  from guarded_operations_status
         [where s = store_after_failed_update and driverData = example_data
            and rnd = "''k3x9q0zab''" and clk = example_clock]
       ra
  have "error (final store_after_failed_update
           (addDriver example_data ''k3x9q0zab'' example_clock store_after_failed_update))
     = error store_after_failed_update"
    by blast
  ultimately show ?thesis using r1 r7 ra by blast
qed

text \<open>
  C9 as stated fails. \<open>deleteDriver\<close> publishes one snapshot, with the loading flag down:
  the flag is never raised. And a successful operation does not clear the error field:
  after an update of an unknown id has set it, \<open>addDriver\<close> resolves and the message is
  still there.
\<close>

theorem status_flags_counterexample:
  "map loading (snd (deleteDriver ''1'' initialStore)) = [False] \<and>
   error store_after_failed_update = Some ''Failed to update driver'' \<and>
   resolved (addDriver example_data ''k3x9q0zab'' example_clock store_after_failed_update) \<noteq> None \<and>
   error (final store_after_failed_update
           (addDriver example_data ''k3x9q0zab'' example_clock store_after_failed_update))
     = Some ''Failed to update driver''"
  by (simp add: deleteDriver_def initialStore_def store_after_failed_update_def final_def
      resolved_def addDriver_def addDriver_try_def updateDriver_def updateDriver_try_def
      catch_block_def Let_def initialDrivers_def)

subsection \<open>updatedAt\<close>

text \<open>
  C4, evaluated on the seed store. \<open>assignVehicle('1', 'V9')\<close> sets the vehicle,
  \<open>unassignVehicle('1')\<close> then clears it, \<open>updateOnboardingStatus('1', 'pending')\<close> sets
  the onboarding status and \<open>verifyDocument('1', 'license', 'rejected')\<close> sets the status
  of the license document; after each of them \<open>updatedAt\<close> is still the seed value
  \<open>2024-03-15T00:00:00Z\<close>. These operations do not read the clock at all.
\<close>

theorem unguarded_operations_keep_updatedAt:
  "map vehicleId (drivers initialStore) = [None] \<and>
   map vehicleId (drivers store_after_assign) = [Some ''V9''] \<and>
   map updatedAt (drivers store_after_assign) = [''2024-03-15T00:00:00Z''] \<and>
   map vehicleId (drivers (final store_after_assign (unassignVehicle ''1'' store_after_assign)))
     = [None] \<and>
   map updatedAt (drivers (final store_after_assign (unassignVehicle ''1'' store_after_assign)))
     = [''2024-03-15T00:00:00Z''] \<and>
   map onboardingStatus (drivers initialStore) = [''completed''] \<and>
   map onboardingStatus
     (drivers (final initialStore (updateOnboardingStatus ''1'' ''pending'' initialStore)))
     = [''pending''] \<and>
   map updatedAt
     (drivers (final initialStore (updateOnboardingStatus ''1'' ''pending'' initialStore)))
     = [''2024-03-15T00:00:00Z''] \<and>
   map_option doc_status (obj_get (documents (hd (drivers initialStore))) ''license'')
     = Some (Some ''verified'') \<and>
   map_option doc_status
     (obj_get
        (documents (hd (drivers (final initialStore
           (verifyDocument ''1'' ''license'' ''rejected'' None initialStore)))))
        ''license'')
     = Some (Some ''rejected'') \<and>
   map updatedAt
     (drivers (final initialStore
        (verifyDocument ''1'' ''license'' ''rejected'' None initialStore)))
     = [''2024-03-15T00:00:00Z'']"
  by (simp add: final_def store_after_assign_def assignVehicle_def unassignVehicle_def
      updateOnboardingStatus_def verifyDocument_def verified_entry_def obj_get_def
      initialStore_def initialDrivers_def)

subsection \<open>getPendingVerifications\<close>

lemma obj_values_obj_get:
  "distinct (map fst ob) \<Longrightarrow>
   (\<exists>doc \<in> set (obj_values ob). P doc) = (\<exists>k doc. obj_get ob k = Some doc \<and> P doc)"
  by (force simp: obj_values_def obj_get_def)

text \<open>
  C8. \<open>getPendingVerifications\<close> is a function of the snapshot alone and publishes
  nothing. It returns, in the order of the collection, exactly the drivers one of whose
  documents has status \<open>pending\<close>; for document maps with one entry per key, these are the
  drivers whose map has a key leading to such a document. A driver with no document is not
  returned, and adding a driver leaves the result as it was.
\<close>

theorem getPendingVerifications_exact:
  "getPendingVerifications s =
     filter (\<lambda>d. \<exists>doc \<in> set (obj_values (documents d)). doc_status doc = Some ''pending'')
       (drivers s) \<and>
   ((\<forall>d \<in> set (drivers s). distinct (map fst (documents d))) \<longrightarrow>
     getPendingVerifications s =
       filter (\<lambda>d. \<exists>k doc. obj_get (documents d) k = Some doc \<and> doc_status doc = Some ''pending'')
         (drivers s)) \<and>
   (\<forall>d. documents d = [] \<longrightarrow> d \<notin> set (getPendingVerifications s)) \<and>
   getPendingVerifications (final s (addDriver driverData rnd clk s)) = getPendingVerifications s"
proof -
  have a: "getPendingVerifications s =
     filter (\<lambda>d. \<exists>doc \<in> set (obj_values (documents d)). doc_status doc = Some ''pending'')
       (drivers s)"
    by (simp add: getPendingVerifications_def list_ex_iff)
  have b: "getPendingVerifications s =
       filter (\<lambda>d. \<exists>k doc. obj_get (documents d) k = Some doc \<and> doc_status doc = Some ''pending'')
         (drivers s)"
    if "\<forall>d \<in> set (drivers s). distinct (map fst (documents d))"
    unfolding a using that by (intro filter_cong refl obj_values_obj_get) simp
  have c: "\<forall>d. documents d = [] \<longrightarrow> d \<notin> set (getPendingVerifications s)"
    by (simp add: getPendingVerifications_def obj_values_def)
  have d: "getPendingVerifications (final s (addDriver driverData rnd clk s)) = getPendingVerifications s"
    by (simp add: getPendingVerifications_def final_def addDriver_def addDriver_try_def
        catch_block_def Let_def obj_values_def)
  from a b c d show ?thesis by blast
qed

theorem getPendingVerifications_exact_witness:
  "list_all (\<lambda>d. distinct (map fst (documents d))) (drivers store_after_upload) \<and>
   getPendingVerifications store_after_upload =
     filter (\<lambda>d. \<exists>k doc. obj_get (documents d) k = Some doc \<and> doc_status doc = Some ''pending'')
       (drivers store_after_upload) \<and>
   map driver_id (getPendingVerifications store_after_upload) = [''1''] \<and>
   getPendingVerifications initialStore = [] \<and>
   getPendingVerifications
     (final store_after_upload
        (addDriver example_data ''k3x9q0zab'' example_clock store_after_upload))
     = getPendingVerifications store_after_upload"
proof -
  have h: "\<forall>d \<in> set (drivers store_after_upload). distinct (map fst (documents d))"
    by (simp add: store_after_upload_def final_uploadDocument initialStore_def
        initialDrivers_def example_document_def)
  note t = getPendingVerifications_exact
             [of store_after_upload example_data "''k3x9q0zab''" example_clock]
  from t h have "getPendingVerifications store_after_upload =
     filter (\<lambda>d. \<exists>k doc. obj_get (documents d) k = Some doc \<and> doc_status doc = Some ''pending'')
       (drivers store_after_upload)"
    by blast
  moreover from t have "getPendingVerifications
     (final store_after_upload
        (addDriver example_data ''k3x9q0zab'' example_clock store_after_upload))
     = getPendingVerifications store_after_upload"
    by blast
  moreover have "map driver_id (getPendingVerifications store_after_upload) = [''1'']"
    by (simp add: getPendingVerifications_def obj_values_def store_after_upload_def
        final_uploadDocument initialStore_def initialDrivers_def example_document_def
        new_document_def)
  moreover have "getPendingVerifications initialStore = []"
    by (simp add: getPendingVerifications_def obj_values_def initialStore_def
        initialDrivers_def)
  ultimately show ?thesis using h by (simp add: list_all_iff)
qed

end
